theory Spec2Isabelle
  imports Complex_Main
begin

section \<open>The offline bookmark queue of the Turbodoc browser extension\<close>

text \<open>
  This theory embeds the offline queue of \<^verbatim>\<open>StorageManager\<close>
  (\<^verbatim>\<open>src/shared/lib/browser-compat.js\<close>), the reconciliation pass
  \<^verbatim>\<open>TurbodocBackground.processOfflineQueue\<close> (\<^verbatim>\<open>src/shared/popup/popup.html\<close>)
  and the failure classification of \<^verbatim>\<open>TurbodocAPI\<close> (\<^verbatim>\<open>src/unnamed/part_002\<close>).

  The JavaScript is asynchronous but sequential: every call is awaited. The model
  threads one \<open>world\<close> value through the calls. What the browser decides (whether a
  promise of the compatibility layer rejects, what the remote service answers, what the
  clock and the random generator return) is an explicit input.
\<close>

subsection \<open>Data\<close>

text \<open>
  A queue entry is the object \<^verbatim>\<open>{ ...bookmarkData, id: ..., queuedAt: ... }\<close>. The
  payload type \<open>'p\<close> stands for the fields of \<^verbatim>\<open>bookmarkData\<close>; the two fields written
  after the spread are kept apart from it. A JavaScript number is a double; the finite
  doubles are rationals, and \<^verbatim>\<open>Date.now()\<close> is an integer number of milliseconds.
\<close>

record 'p entry =
  payload :: 'p
  entry_id :: rat
  queuedAt :: int

text \<open>
  The JavaScript sum of two finite doubles is their exact sum rounded to the nearest
  double, ties to the even significand (IEEE 754 binary64: 53 significant bits, least
  binade \<open>-1022\<close>). \<open>binade x\<close> is the integer \<open>e\<close> with \<open>2 ^ e \<le> x < 2 ^ (e + 1)\<close> for
  \<open>x > 0\<close>; \<open>to_double\<close> rounds a rational. Overflow to \<^verbatim>\<open>Infinity\<close> (from \<open>2 ^ 1024\<close>
  on) is not modelled: the sum of a clock value and a number below one never reaches it.
\<close>

fun bitlen :: "nat \<Rightarrow> nat" where
  "bitlen n = (if n = 0 then 0 else Suc (bitlen (n div 2)))"

declare bitlen.simps [simp del]

definition binade :: "rat \<Rightarrow> int" where
  "binade x =
     (if 1 \<le> x then int (bitlen (nat \<lfloor>x\<rfloor>)) - 1
      else - int (bitlen (nat (\<lceil>1 / x\<rceil> - 1))))"

definition pow2 :: "int \<Rightarrow> rat" where
  "pow2 e = (if 0 \<le> e then 2 ^ nat e else 1 / 2 ^ nat (- e))"

definition round_half_even :: "rat \<Rightarrow> int" where
  "round_half_even x =
     (let f = \<lfloor>x\<rfloor>; r = x - of_int f
      in if r < 1 / 2 then f else if 1 / 2 < r then f + 1 else if even f then f else f + 1)"

definition to_double :: "rat \<Rightarrow> rat" where
  "to_double x =
     (if x = 0 then 0
      else (let ulp = pow2 (max (binade \<bar>x\<bar>) (- 1022) - 52)
            in of_int (round_half_even (x / ulp)) * ulp))"

text \<open>The payloads the popup builds in \<^verbatim>\<open>handleSaveBookmark\<close>.\<close>

record bookmarkData =
  title :: string
  url :: string
  tags :: "string list"
  contentType :: string

text \<open>
  Everything the code does to the outside is recorded, in order, in a trace: the calls
  to \<^verbatim>\<open>storage.local\<close> on the queue key, the submissions to the remote service, the
  badge calls, the notifications and the console output (of the background service and
  of the API client during a submission).
\<close>

datatype 'p event =
    StorageGet
  | StorageSet "'p entry list"
  | StorageRemove
  | CreateBookmark "'p entry"
  | SetBadgeText string
  | SetBadgeBackgroundColor string
  | ShowNotification string string
  | ConsoleLog string
  | ConsoleWarn string
  | ConsoleError string

text \<open>
  \<open>stored\<close> is the value under the key \<^verbatim>\<open>turbodoc_offline_queue\<close> (\<open>None\<close> when the key
  is absent), \<open>calls\<close> counts the promises of the compatibility layer created so far.
\<close>

record 'p world =
  stored :: "'p entry list option"
  calls :: nat
  trace :: "'p event list"

text \<open>
  The results \<^verbatim>\<open>{ success, error }\<close> and \<^verbatim>\<open>{ success, error, data }\<close>. An error is a
  string, except that \<^verbatim>\<open>getErrorMessage\<close> can return a property inherited from
  \<^verbatim>\<open>Object.prototype\<close> (\<open>Inherited\<close>, with the name of the property).
\<close>

datatype message = Text string | Inherited string

record op_result =
  success :: bool
  error :: "message option"

record 'p queue_result = op_result +
  data :: "'p entry list"

subsection \<open>The compatibility layer\<close>

definition emit :: "'p event \<Rightarrow> 'p world \<Rightarrow> 'p world" where
  "emit e w = w\<lparr>trace := trace w @ [e]\<rparr>"

text \<open>
  Each wrapper of \<^verbatim>\<open>browserCompat\<close> returns a promise that rejects when the browser
  reports \<^verbatim>\<open>runtime.lastError\<close>. \<open>rejects n\<close> says whether the \<open>n\<close>-th such promise
  rejects. The result is \<open>True\<close> when the promise resolves.
\<close>

definition browser_call :: "(nat \<Rightarrow> bool) \<Rightarrow> 'p event \<Rightarrow> 'p world \<Rightarrow> bool \<times> 'p world" where
  "browser_call rejects e w =
     (\<not> rejects (calls w), w\<lparr>calls := Suc (calls w), trace := trace w @ [e]\<rparr>)"

definition storage_local_get ::
  "(nat \<Rightarrow> bool) \<Rightarrow> 'p world \<Rightarrow> 'p entry list option option \<times> 'p world" where
  "storage_local_get rejects w =
     (case browser_call rejects StorageGet w of
        (True, w') \<Rightarrow> (Some (stored w), w')
      | (False, w') \<Rightarrow> (None, w'))"

definition storage_local_set ::
  "(nat \<Rightarrow> bool) \<Rightarrow> 'p entry list \<Rightarrow> 'p world \<Rightarrow> bool \<times> 'p world" where
  "storage_local_set rejects q w =
     (case browser_call rejects (StorageSet q) w of
        (True, w') \<Rightarrow> (True, w'\<lparr>stored := Some q\<rparr>)
      | (False, w') \<Rightarrow> (False, w'))"

definition storage_local_remove :: "(nat \<Rightarrow> bool) \<Rightarrow> 'p world \<Rightarrow> bool \<times> 'p world" where
  "storage_local_remove rejects w =
     (case browser_call rejects StorageRemove w of
        (True, w') \<Rightarrow> (True, w'\<lparr>stored := None\<rparr>)
      | (False, w') \<Rightarrow> (False, w'))"

subsection \<open>StorageManager: the queue operations\<close>

text \<open>\<^verbatim>\<open>result[KEY] || []\<close>: an absent key reads as the empty queue.\<close>

definition or_empty :: "'a list option \<Rightarrow> 'a list" where
  "or_empty v = (case v of None \<Rightarrow> [] | Some q \<Rightarrow> q)"

definition stored_queue :: "'p world \<Rightarrow> 'p entry list" where
  "stored_queue w = or_empty (stored w)"

text \<open>
  \<^verbatim>\<open>addToOfflineQueue\<close>: \<open>now\<close>, \<open>rnd\<close> and \<open>now'\<close> are what the two calls of
  \<^verbatim>\<open>Date.now()\<close> and the call of \<^verbatim>\<open>Math.random()\<close> return.
\<close>

definition addToOfflineQueue ::
  "(nat \<Rightarrow> bool) \<Rightarrow> 'p \<Rightarrow> int \<Rightarrow> rat \<Rightarrow> int \<Rightarrow> 'p world \<Rightarrow> op_result \<times> 'p world" where
  "addToOfflineQueue rejects bookmarkData now rnd now' w =
     (case storage_local_get rejects w of
        (None, w1) \<Rightarrow>
          (\<lparr>success = False, error = Some (Text ''Failed to add bookmark to offline queue'')\<rparr>, w1)
      | (Some result, w1) \<Rightarrow>
          (let queue = or_empty result @
                 [\<lparr>payload = bookmarkData, entry_id = to_double (of_int now + rnd), queuedAt = now'\<rparr>]
           in case storage_local_set rejects queue w1 of
                (False, w2) \<Rightarrow>
                  (\<lparr>success = False, error = Some (Text ''Failed to add bookmark to offline queue'')\<rparr>, w2)
              | (True, w2) \<Rightarrow> (\<lparr>success = True, error = None\<rparr>, w2)))"

definition getOfflineQueue :: "(nat \<Rightarrow> bool) \<Rightarrow> 'p world \<Rightarrow> 'p queue_result \<times> 'p world" where
  "getOfflineQueue rejects w =
     (case storage_local_get rejects w of
        (None, w1) \<Rightarrow>
          (\<lparr>success = False, error = Some (Text ''Failed to retrieve offline queue''), data = []\<rparr>, w1)
      | (Some result, w1) \<Rightarrow>
          (\<lparr>success = True, error = None, data = or_empty result\<rparr>, w1))"

definition removeFromOfflineQueue ::
  "(nat \<Rightarrow> bool) \<Rightarrow> rat \<Rightarrow> 'p world \<Rightarrow> op_result \<times> 'p world" where
  "removeFromOfflineQueue rejects itemId w =
     (case storage_local_get rejects w of
        (None, w1) \<Rightarrow>
          (\<lparr>success = False, error = Some (Text ''Failed to remove item from offline queue'')\<rparr>, w1)
      | (Some result, w1) \<Rightarrow>
          (let updatedQueue = filter (\<lambda>item. entry_id item \<noteq> itemId) (or_empty result)
           in case storage_local_set rejects updatedQueue w1 of
                (False, w2) \<Rightarrow>
                  (\<lparr>success = False, error = Some (Text ''Failed to remove item from offline queue'')\<rparr>, w2)
              | (True, w2) \<Rightarrow> (\<lparr>success = True, error = None\<rparr>, w2)))"

definition clearOfflineQueue :: "(nat \<Rightarrow> bool) \<Rightarrow> 'p world \<Rightarrow> op_result \<times> 'p world" where
  "clearOfflineQueue rejects w =
     (case storage_local_remove rejects w of
        (False, w1) \<Rightarrow> (\<lparr>success = False, error = Some (Text ''Failed to clear offline queue'')\<rparr>, w1)
      | (True, w1) \<Rightarrow> (\<lparr>success = True, error = None\<rparr>, w1))"

text \<open>A sequence of enqueue operations, each with its payload, clock and random inputs.\<close>

fun enqueue_all ::
  "(nat \<Rightarrow> bool) \<Rightarrow> ('p \<times> int \<times> rat \<times> int) list \<Rightarrow> 'p world \<Rightarrow> 'p world" where
  "enqueue_all rejects [] w = w"
| "enqueue_all rejects ((p, now, rnd, now') # rest) w =
     enqueue_all rejects rest (snd (addToOfflineQueue rejects p now rnd now' w))"

definition new_entry :: "'p \<times> int \<times> rat \<times> int \<Rightarrow> 'p entry" where
  "new_entry i = (case i of (p, now, rnd, now') \<Rightarrow>
     \<lparr>payload = p, entry_id = to_double (of_int now + rnd), queuedAt = now'\<rparr>)"

subsection \<open>TurbodocAPI: failure classification\<close>

text \<open>\<^verbatim>\<open>Number.prototype.toString()\<close> on a natural number, and \<^verbatim>\<open>String.prototype.includes\<close>.\<close>

function toString :: "nat \<Rightarrow> string" where
  "toString n =
     (if n < 10 then [''0123456789'' ! n]
      else toString (n div 10) @ [''0123456789'' ! (n mod 10)])"
  by pat_completeness auto
termination
  by (relation "measure (\<lambda>n. n)") auto

declare toString.simps [simp del]

fun str_includes :: "string \<Rightarrow> string \<Rightarrow> bool" where
  "str_includes [] sub = (sub = [])"
| "str_includes (c # s) sub = (take (length sub) (c # s) = sub \<or> str_includes s sub)"

text \<open>
  The client: \<^verbatim>\<open>this.supabase\<close>, \<^verbatim>\<open>this.session\<close> and \<^verbatim>\<open>this.user\<close> are set or null.
  \<^verbatim>\<open>init()\<close> is taken as already run: \<^verbatim>\<open>await this.init()\<close> returns at once. When
  \<^verbatim>\<open>this.supabase\<close> is null the code runs \<^verbatim>\<open>init()\<close> again on every call; that retry
  and what it writes to the console are not modelled.

  \<^verbatim>\<open>validateApiConfig\<close> tests a constant that is not empty, so the branch of
  \<^verbatim>\<open>request\<close> that it guards (and its own console line) is never taken.
\<close>

record client =
  has_supabase :: bool
  has_session :: bool
  has_user :: bool

definition isAuthenticated :: "client \<Rightarrow> bool" where
  "isAuthenticated c = (has_session c \<and> has_user c)"

definition API_CONFIG_baseUrl :: string where
  "API_CONFIG_baseUrl = ''https://api.turbodoc.ai''"

definition validateApiConfig :: bool where
  "validateApiConfig = (API_CONFIG_baseUrl \<noteq> [])"

text \<open>
  What \<^verbatim>\<open>fetch\<close> does: it rejects with an error (name, message), or resolves with a
  response of some status whose body is not JSON (\<^verbatim>\<open>response.json()\<close> rejects with
  name and message), or is the JSON value \<^verbatim>\<open>null\<close>, or is another JSON value;
  \<open>Json m\<close> carries the \<^verbatim>\<open>message\<close> property of that value as \<^verbatim>\<open>new Error\<close> converts
  it, \<open>None\<close> when it has none.

  Reading a property of \<^verbatim>\<open>null\<close> throws a \<^verbatim>\<open>TypeError\<close>; \<open>null_read\<close> is its message
  (the text is V8's; no engine's text contains \<^verbatim>\<open>fetch\<close>).
\<close>

datatype body = NotJson string string | JsonNull | Json "string option"

definition null_read :: "string \<Rightarrow> string" where
  "null_read property =
     ''Cannot read properties of null (reading '' @ [CHR 0x27] @ property @ [CHR 0x27] @ '')''"

datatype fetch_outcome = FetchRejected string string | FetchResponse nat body

definition response_ok :: "nat \<Rightarrow> bool" where
  "response_ok status = (200 \<le> status \<and> status \<le> 299)"

text \<open>
  The \<^verbatim>\<open>try\<close> block of \<^verbatim>\<open>request\<close>: \<open>Inl (name, message)\<close> is a thrown error,
  \<open>Inr\<close> the parsed body.
\<close>

fun request_try :: "fetch_outcome \<Rightarrow> (string \<times> string) + body" where
  "request_try (FetchRejected name message) = Inl (name, message)"
| "request_try (FetchResponse status b) =
     (if \<not> response_ok status then
        (if status = 401 then Inl (''Error'', ''UNAUTHORIZED'')
         else if status = 403 then Inl (''Error'', ''FORBIDDEN'')
         else if status = 404 then Inl (''Error'', ''NOT_FOUND'')
         else if status \<ge> 500 then Inl (''Error'', ''SERVER_ERROR'')
         else (case b of
                 JsonNull \<Rightarrow> Inl (''TypeError'', null_read ''message'')
               | Json (Some m) \<Rightarrow>
                   Inl (''Error'', if m \<noteq> [] then m else ''HTTP '' @ toString status)
               | _ \<Rightarrow> Inl (''Error'', ''HTTP '' @ toString status)))
      else (case b of NotJson name message \<Rightarrow> Inl (name, message) | _ \<Rightarrow> Inr b))"

definition request :: "client \<Rightarrow> fetch_outcome \<Rightarrow> (string \<times> string) + body" where
  "request c f =
     (if \<not> has_supabase c then Inl (''Error'', ''Supabase client not initialized'')
      else if \<not> validateApiConfig then Inl (''Error'', ''API configuration is invalid'')
      else (case request_try f of
              Inl (name, message) \<Rightarrow>
                if name = ''TypeError'' \<and> str_includes message ''fetch''
                then Inl (''Error'', ''NETWORK_ERROR'')
                else Inl (name, message)
            | Inr b \<Rightarrow> Inr b))"

definition errorMessages :: "string \<rightharpoonup> string" where
  "errorMessages = map_of
     [(''UNAUTHORIZED'', ''Please sign in to continue''),
      (''FORBIDDEN'', ''Access denied''),
      (''NOT_FOUND'', ''Resource not found''),
      (''SERVER_ERROR'', ''Server error. Please try again later''),
      (''NETWORK_ERROR'', ''Network error. Please check your connection''),
      (''TIMEOUT'', ''Request timeout. Please try again'')]"

text \<open>
  \<^verbatim>\<open>errorMessages\<close> is an object literal, so \<^verbatim>\<open>errorMessages[errorCode]\<close> also finds
  the properties of \<^verbatim>\<open>Object.prototype\<close>, which are functions (an object for
  \<^verbatim>\<open>__proto__\<close>) and truthy.
\<close>

definition Object_prototype :: "string list" where
  "Object_prototype =
     [''constructor'', ''__defineGetter__'', ''__defineSetter__'', ''hasOwnProperty'',
      ''__lookupGetter__'', ''__lookupSetter__'', ''isPrototypeOf'', ''propertyIsEnumerable'',
      ''toString'', ''valueOf'', ''__proto__'', ''toLocaleString'']"

definition getErrorMessage :: "string \<Rightarrow> message" where
  "getErrorMessage errorCode =
     (case errorMessages errorCode of
        Some m \<Rightarrow> Text m
      | None \<Rightarrow>
          if errorCode \<in> set Object_prototype then Inherited errorCode
          else if errorCode \<noteq> [] then Text errorCode
          else Text ''An unexpected error occurred'')"

text \<open>
  What awaiting \<^verbatim>\<open>this.api.createBookmark(item)\<close> gives: a result object, or a thrown
  error; and, in both cases, the lines the client wrote with \<^verbatim>\<open>console.error\<close> while
  the call ran.
\<close>

datatype replay = Resolved "string list" op_result | Rejected "string list" string

fun console :: "replay \<Rightarrow> string list" where
  "console (Resolved ls result) = ls"
| "console (Rejected ls err) = ls"

text \<open>
  The \<^verbatim>\<open>try\<close> block of \<^verbatim>\<open>createBookmark\<close>: the request it sends is built from the
  item, the answer is the environment's; reading \<^verbatim>\<open>response.data\<close> throws when the body
  is \<^verbatim>\<open>null\<close>.
\<close>

definition createBookmark_try :: "client \<Rightarrow> fetch_outcome \<Rightarrow> (string \<times> string) + body" where
  "createBookmark_try c f =
     (if \<not> has_user c then Inl (''Error'', ''User not authenticated'')
      else (case request c f of
              Inl e \<Rightarrow> Inl e
            | Inr JsonNull \<Rightarrow> Inl (''TypeError'', null_read ''data'')
            | Inr b \<Rightarrow> Inr b))"

text \<open>
  \<^verbatim>\<open>createBookmark\<close> catches every error, writes it to the console (the line is the
  label, the name and the message of the error; the stack is left out) and returns a
  result: it never throws.
\<close>

definition createBookmark :: "client \<Rightarrow> fetch_outcome \<Rightarrow> replay" where
  "createBookmark c f =
     (case createBookmark_try c f of
        Inl (name, message) \<Rightarrow>
          Resolved [''Create bookmark error: '' @ name @ '': '' @ message]
            \<lparr>success = False, error = Some (getErrorMessage message)\<rparr>
      | Inr b \<Rightarrow> Resolved [] \<lparr>success = True, error = None\<rparr>)"

subsection \<open>TurbodocBackground: the reconciliation pass\<close>

fun replay_ok :: "replay \<Rightarrow> bool" where
  "replay_ok (Resolved ls result) = success result"
| "replay_ok (Rejected ls err) = False"

definition console_errors :: "string list \<Rightarrow> 'p world \<Rightarrow> 'p world" where
  "console_errors ls w = w\<lparr>trace := trace w @ map ConsoleError ls\<rparr>"

text \<open>
  \<^verbatim>\<open>showNotification\<close> is recorded as one event; whether the browser displays it or the
  fallback logs it is not modelled.
\<close>

definition showNotification :: "string \<Rightarrow> string \<Rightarrow> 'p world \<Rightarrow> 'p world" where
  "showNotification ttl message w = emit (ShowNotification ttl message) w"

definition updateBadge :: "client \<Rightarrow> (nat \<Rightarrow> bool) \<Rightarrow> 'p world \<Rightarrow> 'p world" where
  "updateBadge c rejects w =
     (if \<not> isAuthenticated c then
        (case browser_call rejects (SetBadgeText []) w of
           (True, w1) \<Rightarrow> w1
         | (False, w1) \<Rightarrow> emit (ConsoleError ''Failed to update badge:'') w1)
      else
        (case getOfflineQueue rejects w of (queueResult, w1) \<Rightarrow>
           (let offlineCount = (if success queueResult then length (data queueResult) else 0)
            in if offlineCount > 0 then
                 (case browser_call rejects (SetBadgeText (toString offlineCount)) w1 of
                    (False, w2) \<Rightarrow> emit (ConsoleError ''Failed to update badge:'') w2
                  | (True, w2) \<Rightarrow>
                      (case browser_call rejects (SetBadgeBackgroundColor ''#f59e0b'') w2 of
                         (False, w3) \<Rightarrow> emit (ConsoleError ''Failed to update badge:'') w3
                       | (True, w3) \<Rightarrow> w3))
               else
                 (case browser_call rejects (SetBadgeText []) w1 of
                    (True, w2) \<Rightarrow> w2
                  | (False, w2) \<Rightarrow> emit (ConsoleError ''Failed to update badge:'') w2))))"

text \<open>
  The loop \<^verbatim>\<open>for (const item of queue)\<close> over the snapshot. \<open>api i\<close> is the outcome of
  the \<open>i\<close>-th submission of the pass, with the console lines of the client. The state is \<^verbatim>\<open>processedCount\<close>,
  \<^verbatim>\<open>failedCount\<close> and the world.
\<close>

fun process_items ::
  "(nat \<Rightarrow> bool) \<Rightarrow> (nat \<Rightarrow> replay) \<Rightarrow> nat \<Rightarrow> 'p entry list \<Rightarrow>
   nat \<times> nat \<times> 'p world \<Rightarrow> nat \<times> nat \<times> 'p world" where
  "process_items rejects api i [] s = s"
| "process_items rejects api i (item # rest) (processedCount, failedCount, w) =
     process_items rejects api (Suc i) rest
       (let w1 = console_errors (console (api i)) (emit (CreateBookmark item) w)
        in case api i of
             Resolved ls result \<Rightarrow>
               if success result
               then (Suc processedCount, failedCount,
                     snd (removeFromOfflineQueue rejects (entry_id item) w1))
               else (processedCount, Suc failedCount, w1)
           | Rejected ls err \<Rightarrow>
               (processedCount, Suc failedCount,
                emit (ConsoleError (''Failed to process offline item: '' @ err)) w1))"

text \<open>
  \<^verbatim>\<open>processOfflineQueue\<close> returns nothing; the model returns, beside the world, the
  final values of the two counters (\<open>None\<close> on the early returns). The outer
  \<^verbatim>\<open>catch\<close> has no branch here: every callee catches its own errors.
\<close>

definition processOfflineQueue ::
  "client \<Rightarrow> (nat \<Rightarrow> bool) \<Rightarrow> (nat \<Rightarrow> replay) \<Rightarrow> 'p world \<Rightarrow> (nat \<times> nat) option \<times> 'p world" where
  "processOfflineQueue c rejects api w =
     (if \<not> isAuthenticated c then (None, w)
      else
        (case getOfflineQueue rejects w of (queueResult, w1) \<Rightarrow>
           if \<not> success queueResult \<or> length (data queueResult) = 0 then (None, w1)
           else
             (case process_items rejects api 0 (data queueResult) (0, 0, w1) of
                (processedCount, failedCount, w2) \<Rightarrow>
                  (let w3 =
                     (if processedCount > 0 then
                        (let w' = updateBadge c rejects
                           (emit (ConsoleLog (''Processed '' @ toString processedCount @
                                              '' offline bookmarks'')) w2)
                         in if processedCount > 1
                            then showNotification ''Sync Complete''
                                   (toString processedCount @ '' offline bookmarks synced'') w'
                            else w')
                      else w2);
                     w4 =
                     (if failedCount > 0
                      then emit (ConsoleWarn (''Failed to process '' @ toString failedCount @
                                              '' offline bookmarks'')) w3
                      else w3)
                   in (Some (processedCount, failedCount), w4)))))"

subsection \<open>Reading the trace\<close>

fun submission :: "'p event \<Rightarrow> 'p entry list" where
  "submission (CreateBookmark item) = [item]"
| "submission _ = []"

definition submitted :: "'p event list \<Rightarrow> 'p entry list" where
  "submitted t = concat (map submission t)"

fun notification :: "'p event \<Rightarrow> (string \<times> string) list" where
  "notification (ShowNotification ttl message) = [(ttl, message)]"
| "notification _ = []"

definition notifications :: "'p event list \<Rightarrow> (string \<times> string) list" where
  "notifications t = concat (map notification t)"

text \<open>The trace without the console output.\<close>

fun is_console :: "'p event \<Rightarrow> bool" where
  "is_console (ConsoleLog s) = True"
| "is_console (ConsoleWarn s) = True"
| "is_console (ConsoleError s) = True"
| "is_console e = False"

definition quiet :: "'p event list \<Rightarrow> 'p event list" where
  "quiet t = filter (\<lambda>e. \<not> is_console e) t"


text \<open>
  The ids of the entries of a snapshot whose replay succeeds, \<open>i\<close> being the index of
  the first one: the ids the loop asks the queue to remove.
\<close>

fun ok_ids :: "(nat \<Rightarrow> replay) \<Rightarrow> nat \<Rightarrow> 'p entry list \<Rightarrow> rat list" where
  "ok_ids api i [] = []"
| "ok_ids api i (item # rest) =
     (if replay_ok (api i) then [entry_id item] else []) @ ok_ids api (Suc i) rest"

text \<open>
  The part of \<^verbatim>\<open>processOfflineQueue\<close> after the loop, as a function of the loop's final
  state. It is the same text as in \<open>processOfflineQueue\<close>; lemma \<open>pass_unfold\<close> below
  connects the two.
\<close>

definition after_loop ::
  "client \<Rightarrow> (nat \<Rightarrow> bool) \<Rightarrow> nat \<times> nat \<times> 'p world \<Rightarrow> (nat \<times> nat) option \<times> 'p world" where
  "after_loop c rejects s = (case s of (processedCount, failedCount, w2) \<Rightarrow>
                  (let w3 =
                     (if processedCount > 0 then
                        (let w' = updateBadge c rejects
                           (emit (ConsoleLog (''Processed '' @ toString processedCount @
                                              '' offline bookmarks'')) w2)
                         in if processedCount > 1
                            then showNotification ''Sync Complete''
                                   (toString processedCount @ '' offline bookmarks synced'') w'
                            else w')
                      else w2);
                     w4 =
                     (if failedCount > 0
                      then emit (ConsoleWarn (''Failed to process '' @ toString failedCount @
                                              '' offline bookmarks'')) w3
                      else w3)
                   in (Some (processedCount, failedCount), w4)))"

subsection \<open>Concrete inputs\<close>

text \<open>
  A browser whose promises all resolve, and one whose promises all reject; a signed-in
  and a signed-out client; the two payloads of the scenario of the specification.
\<close>

definition never_rejects :: "nat \<Rightarrow> bool" where
  "never_rejects n = False"

definition always_rejects :: "nat \<Rightarrow> bool" where
  "always_rejects n = True"

definition empty_world :: "'p world" where
  "empty_world = \<lparr>stored = None, calls = 0, trace = []\<rparr>"

definition signed_in :: client where
  "signed_in = \<lparr>has_supabase = True, has_session = True, has_user = True\<rparr>"

definition signed_out :: client where
  "signed_out = \<lparr>has_supabase = True, has_session = False, has_user = False\<rparr>"

definition payload_A :: bookmarkData where
  "payload_A = \<lparr>title = ''Foo'', url = ''http://x'', tags = [], contentType = ''link''\<rparr>"

definition payload_B :: bookmarkData where
  "payload_B = \<lparr>title = ''Bar'', url = ''http://y'', tags = [], contentType = ''link''\<rparr>"

text \<open>A, then B, enqueued one millisecond apart.\<close>

definition world_AB :: "bookmarkData world" where
  "world_AB = enqueue_all never_rejects
     [(payload_A, 1700000000000, 1 / 2, 1700000000000),
      (payload_B, 1700000000001, 1 / 4, 1700000000001)] empty_world"

text \<open>Three payloads enqueued at three different milliseconds.\<close>

definition world_three :: "bookmarkData world" where
  "world_three = enqueue_all never_rejects
     [(payload_A, 1700000000000, 1 / 2, 1700000000000),
      (payload_B, 1700000000001, 1 / 4, 1700000000001),
      (payload_A, 1700000000002, 3 / 4, 1700000000002)] empty_world"

text \<open>
  A, then B, enqueued in the same millisecond with the same value of
  \<^verbatim>\<open>Math.random()\<close>: the two ids are the same double \<open>1700000000000.5\<close>.
\<close>

definition world_collision :: "bookmarkData world" where
  "world_collision = enqueue_all never_rejects
     [(payload_A, 1700000000000, 1 / 2, 1700000000000),
      (payload_B, 1700000000000, 1 / 2, 1700000000000)] empty_world"

text \<open>A, B and A again with the id of the first A.\<close>

definition world_ABA :: "bookmarkData world" where
  "world_ABA = enqueue_all never_rejects
     [(payload_A, 1700000000000, 1 / 2, 1700000000000),
      (payload_B, 1700000000001, 1 / 4, 1700000000001),
      (payload_A, 1700000000000, 1 / 2, 1700000000002)] empty_world"

text \<open>
  Replay outcomes: the first submission of the pass gets the answer \<open>f\<close>, every later
  one is created (status 201); and every submission is created.
\<close>

definition answers :: "fetch_outcome \<Rightarrow> nat \<Rightarrow> fetch_outcome" where
  "answers f i = (if i = 0 then f else FetchResponse 201 (Json None))"

definition first_fails :: "fetch_outcome \<Rightarrow> nat \<Rightarrow> replay" where
  "first_fails f i = createBookmark signed_in (answers f i)"

definition all_succeed :: "nat \<Rightarrow> replay" where
  "all_succeed i = createBookmark signed_in (FetchResponse 201 (Json None))"

section \<open>Properties\<close>

subsection \<open>The queue operations, one call at a time\<close>

lemmas storage_defs = storage_local_get_def storage_local_set_def storage_local_remove_def
  browser_call_def stored_queue_def emit_def bool.case_eq_if

lemma getOfflineQueue_eq:
  "getOfflineQueue rejects w =
     (if rejects (calls w)
      then \<lparr>success = False, error = Some (Text ''Failed to retrieve offline queue''), data = []\<rparr>
      else \<lparr>success = True, error = None, data = stored_queue w\<rparr>,
      w\<lparr>calls := Suc (calls w), trace := trace w @ [StorageGet]\<rparr>)"
  by (simp add: getOfflineQueue_def storage_defs)

lemma remove_stored_queue:
  "stored_queue (snd (removeFromOfflineQueue rejects i w)) =
     (if rejects (calls w) \<or> rejects (Suc (calls w)) then stored_queue w
      else filter (\<lambda>item. entry_id item \<noteq> i) (stored_queue w))"
  by (simp add: removeFromOfflineQueue_def storage_defs or_empty_def Let_def)

lemma remove_success:
  "fst (removeFromOfflineQueue rejects i w) =
     (if rejects (calls w) \<or> rejects (Suc (calls w))
      then \<lparr>success = False, error = Some (Text ''Failed to remove item from offline queue'')\<rparr>
      else \<lparr>success = True, error = None\<rparr>)"
  by (simp add: removeFromOfflineQueue_def storage_defs Let_def)

lemma remove_submitted:
  "submitted (trace (snd (removeFromOfflineQueue rejects i w))) = submitted (trace w)"
  by (simp add: removeFromOfflineQueue_def storage_defs Let_def submitted_def)

lemma remove_notifications:
  "notifications (trace (snd (removeFromOfflineQueue rejects i w))) = notifications (trace w)"
  by (simp add: removeFromOfflineQueue_def storage_defs Let_def notifications_def)

lemma add_stored_queue:
  "stored_queue (snd (addToOfflineQueue rejects p now rnd now' w)) =
     (if rejects (calls w) \<or> rejects (Suc (calls w)) then stored_queue w
      else stored_queue w @ [new_entry (p, now, rnd, now')])"
  by (simp add: addToOfflineQueue_def storage_defs or_empty_def Let_def new_entry_def)

lemma add_success:
  "fst (addToOfflineQueue rejects p now rnd now' w) =
     (if rejects (calls w) \<or> rejects (Suc (calls w))
      then \<lparr>success = False, error = Some (Text ''Failed to add bookmark to offline queue'')\<rparr>
      else \<lparr>success = True, error = None\<rparr>)"
  by (simp add: addToOfflineQueue_def storage_defs Let_def)

lemma clear_stored_queue:
  "stored_queue (snd (clearOfflineQueue rejects w)) =
     (if rejects (calls w) then stored_queue w else [])"
  by (simp add: clearOfflineQueue_def storage_defs or_empty_def)

lemma updateBadge_stored: "stored (updateBadge c rejects w) = stored w"
  by (simp add: updateBadge_def getOfflineQueue_eq storage_defs Let_def)

lemma updateBadge_submitted: "submitted (trace (updateBadge c rejects w)) = submitted (trace w)"
  by (simp add: updateBadge_def getOfflineQueue_eq storage_defs Let_def submitted_def)

lemma updateBadge_notifications:
  "notifications (trace (updateBadge c rejects w)) = notifications (trace w)"
  by (simp add: updateBadge_def getOfflineQueue_eq storage_defs Let_def notifications_def)

subsection \<open>The loop of the reconciliation pass\<close>

lemma submitted_emit: "submitted (trace (emit e w)) = submitted (trace w) @ submission e"
  by (simp add: emit_def submitted_def)

lemma notifications_emit: "notifications (trace (emit e w)) = notifications (trace w) @ notification e"
  by (simp add: emit_def notifications_def)

lemma stored_queue_emit: "stored_queue (emit e w) = stored_queue w"
  by (simp add: emit_def stored_queue_def)

lemma submission_ConsoleError: "concat (map submission (map ConsoleError ls)) = []"
  by (induction ls) simp_all

lemma notification_ConsoleError: "concat (map notification (map ConsoleError ls)) = []"
  by (induction ls) simp_all

lemma submitted_console_errors: "submitted (trace (console_errors ls w)) = submitted (trace w)"
  by (simp add: console_errors_def submitted_def submission_ConsoleError)

lemma notifications_console_errors:
  "notifications (trace (console_errors ls w)) = notifications (trace w)"
  by (simp add: console_errors_def notifications_def notification_ConsoleError)

lemma stored_queue_console_errors: "stored_queue (console_errors ls w) = stored_queue w"
  by (simp add: console_errors_def stored_queue_def)

lemma process_items_submitted:
  "submitted (trace (snd (snd (process_items rejects api i items (p, f, w))))) =
     submitted (trace w) @ items"
proof (induction items arbitrary: i p f w)
  case Nil
  show ?case by simp
next
  case (Cons item rest)
  show ?case
    by (cases "api i") (simp_all add: Cons.IH Let_def remove_submitted submitted_emit submitted_console_errors)
qed

lemma process_items_notifications:
  "notifications (trace (snd (snd (process_items rejects api i items (p, f, w))))) =
     notifications (trace w)"
proof (induction items arbitrary: i p f w)
  case Nil
  show ?case by simp
next
  case (Cons item rest)
  show ?case
    by (cases "api i") (simp_all add: Cons.IH Let_def remove_notifications notifications_emit
          notifications_console_errors)
qed

lemma process_items_processedCount:
  "fst (process_items rejects api i items (p, f, w)) = p + length (ok_ids api i items)"
proof (induction items arbitrary: i p f w)
  case Nil
  show ?case by simp
next
  case (Cons item rest)
  show ?case
    by (cases "api i") (simp_all add: Cons.IH Let_def)
qed

lemma process_items_failedCount:
  "fst (snd (process_items rejects api i items (p, f, w))) + length (ok_ids api i items) =
     f + length items"
proof (induction items arbitrary: i p f w)
  case Nil
  show ?case by simp
next
  case (Cons item rest)
  show ?case
    by (cases "api i") (simp_all add: Cons.IH Let_def)
qed

lemma ok_ids_iff:
  "x \<in> set (ok_ids api i items) \<longleftrightarrow>
     (\<exists>j < length items. replay_ok (api (i + j)) \<and> entry_id (items ! j) = x)"
proof (induction items arbitrary: i)
  case Nil
  show ?case by simp
next
  case (Cons item rest)
  show ?case
    by (simp add: Cons.IH Ex_less_Suc2) blast
qed

lemma ok_ids_all:
  "\<forall>j < length items. replay_ok (api (i + j)) \<Longrightarrow> ok_ids api i items = map entry_id items"
proof (induction items arbitrary: i)
  case Nil
  show ?case by simp
next
  case (Cons item rest)
  from Cons.prems have "replay_ok (api i)" by auto
  moreover from Cons.prems have "\<forall>j < length rest. replay_ok (api (Suc i + j))" by auto
  ultimately show ?case using Cons.IH [of "Suc i"] by simp
qed

lemma process_items_keeps:
  "e \<in> set (stored_queue w) \<Longrightarrow> entry_id e \<notin> set (ok_ids api i items) \<Longrightarrow>
     e \<in> set (stored_queue (snd (snd (process_items rejects api i items (p, f, w)))))"
proof (induction items arbitrary: i p f w)
  case Nil
  then show ?case by simp
next
  case (Cons item rest)
  show ?case
  proof (cases "api i")
    case (Rejected ls err)
    with Cons.prems show ?thesis
      by (simp add: Let_def Cons.IH stored_queue_emit stored_queue_console_errors)
  next
    case (Resolved ls result)
    show ?thesis
    proof (cases "success result")
      case False
      with Resolved Cons.prems show ?thesis
        by (simp add: Let_def Cons.IH stored_queue_emit stored_queue_console_errors)
    next
      case True
      with Resolved Cons.prems have ne: "entry_id e \<noteq> entry_id item"
        and rest: "entry_id e \<notin> set (ok_ids api (Suc i) rest)" by auto
      from Cons.prems(1) ne
      have "e \<in> set (stored_queue (snd (removeFromOfflineQueue rejects (entry_id item)
                (console_errors ls (emit (CreateBookmark item) w)))))"
        by (simp add: remove_stored_queue stored_queue_emit stored_queue_console_errors)
      from Cons.IH [OF this rest] Resolved True show ?thesis
        by (simp add: Let_def)
    qed
  qed
qed

lemma calls_emit: "calls (emit e w) = calls w"
  by (simp add: emit_def)

lemma remove_stored_queue_ok:
  "\<forall>n. \<not> rejects n \<Longrightarrow>
     stored_queue (snd (removeFromOfflineQueue rejects i w)) =
       filter (\<lambda>item. entry_id item \<noteq> i) (stored_queue w)"
  by (simp add: remove_stored_queue)

lemma process_items_stored_queue:
  "\<forall>n. \<not> rejects n \<Longrightarrow>
     stored_queue (snd (snd (process_items rejects api i items (p, f, w)))) =
       filter (\<lambda>e. entry_id e \<notin> set (ok_ids api i items)) (stored_queue w)"
proof (induction items arbitrary: i p f w)
  case Nil
  show ?case by simp
next
  case (Cons item rest)
  note IH = Cons.IH [OF Cons.prems]
  note rm = remove_stored_queue_ok [OF Cons.prems]
  show ?case
    by (cases "api i") (simp_all add: IH rm Let_def stored_queue_emit stored_queue_console_errors)
qed

lemma add_stored_queue_ok:
  "\<forall>n. \<not> rejects n \<Longrightarrow>
     stored_queue (snd (addToOfflineQueue rejects p now rnd now' w)) =
       stored_queue w @ [new_entry (p, now, rnd, now')]"
  by (simp add: add_stored_queue)

lemma enqueue_all_stored_queue:
  "\<forall>n. \<not> rejects n \<Longrightarrow>
     stored_queue (enqueue_all rejects inputs w) = stored_queue w @ map new_entry inputs"
proof (induction inputs arbitrary: w)
  case Nil
  show ?case by simp
next
  case (Cons x rest)
  obtain p now rnd now' where x: "x = (p, now, rnd, now')" by (cases x) auto
  show ?case
    by (simp add: x Cons.IH [OF Cons.prems] add_stored_queue_ok [OF Cons.prems])
qed

lemma stored_queue_showNotification: "stored_queue (showNotification t m w) = stored_queue w"
  by (simp add: showNotification_def stored_queue_emit)

lemma updateBadge_stored_queue: "stored_queue (updateBadge c rejects w) = stored_queue w"
  by (simp add: stored_queue_def updateBadge_stored)

lemma pass_unfold:
  "isAuthenticated c \<Longrightarrow> \<not> rejects (calls w) \<Longrightarrow> stored_queue w \<noteq> [] \<Longrightarrow>
   processOfflineQueue c rejects api w =
     after_loop c rejects (process_items rejects api 0 (stored_queue w)
        (0, 0, w\<lparr>calls := Suc (calls w), trace := trace w @ [StorageGet]\<rparr>))"
  by (simp add: processOfflineQueue_def getOfflineQueue_eq after_loop_def)

lemma pass_early:
  "isAuthenticated c \<Longrightarrow> stored_queue w = [] \<or> rejects (calls w) \<Longrightarrow>
   processOfflineQueue c rejects api w =
     (None, w\<lparr>calls := Suc (calls w), trace := trace w @ [StorageGet]\<rparr>)"
  by (auto simp add: processOfflineQueue_def getOfflineQueue_eq)

lemma after_loop_stored_queue:
  "stored_queue (snd (after_loop c rejects s)) = stored_queue (snd (snd s))"
  by (cases s)
     (simp add: after_loop_def Let_def stored_queue_emit stored_queue_showNotification
        updateBadge_stored_queue)

lemma after_loop_submitted:
  "submitted (trace (snd (after_loop c rejects s))) = submitted (trace (snd (snd s)))"
  by (cases s)
     (simp add: after_loop_def Let_def submitted_emit showNotification_def updateBadge_submitted)

lemma after_loop_notifications:
  "notifications (trace (snd (after_loop c rejects s))) =
     notifications (trace (snd (snd s))) @
       (if fst s > 1
        then [(''Sync Complete'', toString (fst s) @ '' offline bookmarks synced'')] else [])"
  by (cases s)
     (simp add: after_loop_def Let_def notifications_emit showNotification_def
        updateBadge_notifications)

lemma after_loop_counts: "fst (after_loop c rejects s) = Some (fst s, fst (snd s))"
  by (cases s) (simp add: after_loop_def Let_def)


lemma submitted_append: "submitted (t @ u) = submitted t @ submitted u"
  by (simp add: submitted_def)

lemma submitted_Nil: "submitted [] = []"
  by (simp add: submitted_def)

lemma submitted_Cons: "submitted (e # t) = submission e @ submitted t"
  by (simp add: submitted_def)

lemma notifications_append: "notifications (t @ u) = notifications t @ notifications u"
  by (simp add: notifications_def)

lemma notifications_Nil: "notifications [] = []"
  by (simp add: notifications_def)

lemma notifications_Cons: "notifications (e # t) = notification e @ notifications t"
  by (simp add: notifications_def)

lemma pass_submitted:
  assumes auth: "isAuthenticated c" and read: "\<not> rejects (calls w)"
  shows "submitted (trace (snd (processOfflineQueue c rejects api w))) =
           submitted (trace w) @ stored_queue w"
proof (cases "stored_queue w = []")
  case True
  then show ?thesis
    by (simp add: pass_early [OF auth] submitted_append submitted_Cons submitted_Nil)
next
  case False
  note unfold = pass_unfold [where c = c and rejects = rejects and w = w and api = api,
      OF auth read False]
  show ?thesis
    by (simp add: unfold after_loop_submitted process_items_submitted submitted_append
        submitted_Cons submitted_Nil)
qed

lemma pass_keeps:
  assumes auth: "isAuthenticated c" and read: "\<not> rejects (calls w)"
    and k: "k < length (stored_queue w)"
    and ids: "\<forall>j < length (stored_queue w).
                replay_ok (api j) \<longrightarrow> entry_id (stored_queue w ! j) \<noteq> entry_id (stored_queue w ! k)"
  shows "stored_queue w ! k \<in> set (stored_queue (snd (processOfflineQueue c rejects api w)))"
proof -
  let ?q = "stored_queue w"
  let ?w1 = "w\<lparr>calls := Suc (calls w), trace := trace w @ [StorageGet]\<rparr>"
  from k have ne: "?q \<noteq> []" by auto
  have q1: "stored_queue ?w1 = ?q" by (simp add: stored_queue_def)
  note unfold = pass_unfold [where c = c and rejects = rejects and w = w and api = api,
      OF auth read ne]
  from ids have "entry_id (?q ! k) \<notin> set (ok_ids api 0 ?q)"
    by (auto simp: ok_ids_iff)
  moreover from k have "?q ! k \<in> set (stored_queue ?w1)" by (simp add: q1)
  ultimately
  have "?q ! k \<in> set (stored_queue (snd (snd (process_items rejects api 0 ?q (0, 0, ?w1)))))"
    by (rule process_items_keeps [rotated])
  then show ?thesis
    by (simp add: unfold after_loop_stored_queue)
qed



subsection \<open>Counting the replays\<close>




subsection \<open>Passes that differ in the console output only\<close>













subsection \<open>Evaluating the concrete inputs\<close>

lemma floor_rat_numeral_div:
  "\<lfloor>(numeral a :: rat) / numeral b\<rfloor> = numeral a div numeral b"
  by (metis floor_divide_of_int_eq of_int_numeral)

lemmas double_defs = to_double_def binade_def pow2_def round_half_even_def bitlen.simps Let_def
  floor_rat_numeral_div

lemma id_A: "to_double (3400000000001 / 2) = 3400000000001 / 2"
  by (simp add: double_defs)

lemma id_B: "to_double (6800000000005 / 4) = 6800000000005 / 4"
  by (simp add: double_defs)

lemma id_C: "to_double (6800000000011 / 4) = 6800000000011 / 4"
  by (simp add: double_defs)

text \<open>
  Rounding at work: near \<open>1.7e12\<close> the doubles are \<open>2 ^ 12\<close> to the unit, so two different
  draws of the same millisecond can give one id.
\<close>

lemma id_rounded_20: "to_double (of_int 1700000000000 + 1 / 2 ^ 20) = 1700000000000"
  by (simp add: double_defs)

lemma id_rounded_21: "to_double (of_int 1700000000000 + 1 / 2 ^ 21) = 1700000000000"
  by (simp add: double_defs)

lemma id_rounded_up: "to_double (of_int 1700000000000 + 3 / 2 ^ 13) = 1700000000000 + 1 / 2 ^ 11"
  by (simp add: double_defs)

lemmas queue_defs = addToOfflineQueue_def getOfflineQueue_def removeFromOfflineQueue_def
  clearOfflineQueue_def storage_defs or_empty_def Let_def new_entry_def empty_world_def
  never_rejects_def always_rejects_def id_A id_B id_C

lemmas api_defs = createBookmark_def createBookmark_try_def request_def validateApiConfig_def
  API_CONFIG_baseUrl_def response_ok_def getErrorMessage_def errorMessages_def
  Object_prototype_def null_read_def signed_in_def signed_out_def
  isAuthenticated_def first_fails_def answers_def all_succeed_def

lemmas pass_defs = processOfflineQueue_def updateBadge_def showNotification_def
  console_errors_def submitted_def notifications_def quiet_def toString.simps

lemma world_AB_eq:
  "world_AB = \<lparr>stored = Some [new_entry (payload_A, 1700000000000, 1 / 2, 1700000000000),
                               new_entry (payload_B, 1700000000001, 1 / 4, 1700000000001)],
               calls = 4,
               trace = [StorageGet,
                        StorageSet [new_entry (payload_A, 1700000000000, 1 / 2, 1700000000000)],
                        StorageGet,
                        StorageSet [new_entry (payload_A, 1700000000000, 1 / 2, 1700000000000),
                               new_entry (payload_B, 1700000000001, 1 / 4, 1700000000001)]]\<rparr>"
  by (simp add: world_AB_def queue_defs)

lemma world_ABA_queue:
  "stored_queue world_ABA =
     [new_entry (payload_A, 1700000000000, 1 / 2, 1700000000000),
      new_entry (payload_B, 1700000000001, 1 / 4, 1700000000001),
      new_entry (payload_A, 1700000000000, 1 / 2, 1700000000002)]"
  by (simp add: world_ABA_def queue_defs)

lemma world_AB_queue:
  "stored_queue world_AB =
     [new_entry (payload_A, 1700000000000, 1 / 2, 1700000000000),
      new_entry (payload_B, 1700000000001, 1 / 4, 1700000000001)]"
  by (simp add: world_AB_def queue_defs)


lemma world_three_queue:
  "stored_queue world_three =
     [new_entry (payload_A, 1700000000000, 1 / 2, 1700000000000),
      new_entry (payload_B, 1700000000001, 1 / 4, 1700000000001),
      new_entry (payload_A, 1700000000002, 3 / 4, 1700000000002)]"
  by (simp add: world_three_def queue_defs)

lemma eval_created: "createBookmark signed_in (FetchResponse 201 (Json None)) =
   Resolved [] \<lparr>success = True, error = None\<rparr>"
  by (simp add: api_defs)

lemma eval_server_error: "createBookmark signed_in (FetchResponse 500 (Json None)) =
   Resolved [''Create bookmark error: Error: SERVER_ERROR'']
     \<lparr>success = False, error = Some (Text ''Server error. Please try again later'')\<rparr>"
  by (simp add: api_defs)


lemma eval_null_body: "createBookmark signed_in (FetchResponse 200 JsonNull) =
   Resolved [''Create bookmark error: TypeError: '' @ null_read ''data'']
     \<lparr>success = False, error = Some (Text (null_read ''data''))\<rparr>"
  by (simp add: api_defs)

lemma eval_inherited:
  "createBookmark signed_in (FetchResponse 400 (Json (Some ''constructor''))) =
   Resolved [''Create bookmark error: Error: constructor'']
     \<lparr>success = False, error = Some (Inherited ''constructor'')\<rparr>"
  by (simp add: api_defs)

lemma signed_in_authenticated: "isAuthenticated signed_in"
  by (simp add: api_defs)

section \<open>The claims\<close>

subsection \<open>C1: a failed replay does not stop the pass\<close>

text \<open>
  C1, as stated, fails on a queue in which the failing entry shares its id with an
  entry whose replay succeeds: A and B were enqueued with the same id, the replay of A
  fails with a server error, the replay of B succeeds, and the removal of B's id removes
  A as well.
\<close>

theorem failed_entry_removed_on_shared_id:
  "isAuthenticated signed_in
   \<and> stored_queue world_collision =
       [new_entry (payload_A, 1700000000000, 1 / 2, 1700000000000),
        new_entry (payload_B, 1700000000000, 1 / 2, 1700000000000)]
   \<and> \<not> replay_ok (first_fails (FetchResponse 500 (Json None)) 0)
   \<and> replay_ok (first_fails (FetchResponse 500 (Json None)) 1)
   \<and> stored_queue world_collision ! 0 \<notin>
       set (stored_queue (snd (processOfflineQueue signed_in never_rejects
             (first_fails (FetchResponse 500 (Json None))) world_collision)))"
  by (simp add: world_collision_def queue_defs api_defs pass_defs)

text \<open>
  C1, amended. In a pass that runs (the client is authenticated and the snapshot is
  read), whatever the queue, the replay outcomes and the later storage calls, the
  entries of the snapshot are submitted once each, in insertion order; and every entry K
  whose replay fails (an unsuccessful result or a thrown error) is still in the queue
  after the pass, provided no entry whose replay succeeds has the id of K, as is the
  case when the ids are pairwise distinct.
\<close>

theorem pass_submits_all_failed_stays:
  assumes auth: "isAuthenticated c"
    and read: "\<not> rejects (calls w)"
  shows "submitted (trace (snd (processOfflineQueue c rejects api w))) =
           submitted (trace w) @ stored_queue w
       \<and> (\<forall>k < length (stored_queue w).
             \<not> replay_ok (api k) \<longrightarrow>
             (\<forall>j < length (stored_queue w).
                replay_ok (api j) \<longrightarrow>
                entry_id (stored_queue w ! j) \<noteq> entry_id (stored_queue w ! k)) \<longrightarrow>
             stored_queue w ! k \<in>
               set (stored_queue (snd (processOfflineQueue c rejects api w))))"
proof -
  have s: "submitted (trace (snd (processOfflineQueue c rejects api w))) =
           submitted (trace w) @ stored_queue w"
    by (rule pass_submitted [where c = c and rejects = rejects and w = w and api = api,
          OF auth read])
  have k: "stored_queue w ! k \<in> set (stored_queue (snd (processOfflineQueue c rejects api w)))"
    if "k < length (stored_queue w)"
      and "\<forall>j < length (stored_queue w).
             replay_ok (api j) \<longrightarrow>
             entry_id (stored_queue w ! j) \<noteq> entry_id (stored_queue w ! k)" for k
    using that
    by (rule pass_keeps [where c = c and rejects = rejects and w = w and api = api and k = k,
          OF auth read])
  from s k show ?thesis by blast
qed

theorem pass_submits_all_failed_stays_witness:
  "isAuthenticated signed_in
   \<and> \<not> never_rejects (calls world_AB)
   \<and> 0 < length (stored_queue world_AB)
   \<and> \<not> replay_ok (first_fails (FetchResponse 500 (Json None)) 0)
   \<and> replay_ok (first_fails (FetchResponse 500 (Json None)) 1)
   \<and> entry_id (stored_queue world_AB ! 1) \<noteq> entry_id (stored_queue world_AB ! 0)
   \<and> submitted (trace (snd (processOfflineQueue signed_in never_rejects
          (first_fails (FetchResponse 500 (Json None))) world_AB))) =
       [new_entry (payload_A, 1700000000000, 1 / 2, 1700000000000),
        new_entry (payload_B, 1700000000001, 1 / 4, 1700000000001)]
   \<and> new_entry (payload_A, 1700000000000, 1 / 2, 1700000000000) \<in>
       set (stored_queue (snd (processOfflineQueue signed_in never_rejects
          (first_fails (FetchResponse 500 (Json None))) world_AB)))"
proof -
  have h1: "isAuthenticated signed_in" by (rule signed_in_authenticated)
  have h2: "\<not> never_rejects (calls world_AB)" by (simp add: never_rejects_def)
  have h3: "0 < length (stored_queue world_AB)" by (simp add: world_AB_queue)
  have h4: "\<not> replay_ok (first_fails (FetchResponse 500 (Json None)) 0)"
    by (simp add: first_fails_def answers_def eval_server_error)
  have h5: "\<forall>j < length (stored_queue world_AB).
         replay_ok (first_fails (FetchResponse 500 (Json None)) j) \<longrightarrow>
         entry_id (stored_queue world_AB ! j) \<noteq> entry_id (stored_queue world_AB ! 0)"
    by (simp add: world_AB_queue first_fails_def answers_def eval_server_error eval_created
        new_entry_def id_A id_B less_Suc_eq)
  have h6: "replay_ok (first_fails (FetchResponse 500 (Json None)) 1)"
    by (simp add: first_fails_def answers_def eval_created)
  have h7: "entry_id (stored_queue world_AB ! 1) \<noteq> entry_id (stored_queue world_AB ! 0)"
    by (simp add: world_AB_queue new_entry_def id_A id_B)
  have s: "submitted (trace world_AB) = []"
    by (simp add: world_AB_eq submitted_def)
  note t = pass_submits_all_failed_stays [where c = signed_in and rejects = never_rejects
      and w = world_AB and api = "first_fails (FetchResponse 500 (Json None))", OF h1 h2]
  from t have t1: "submitted (trace (snd (processOfflineQueue signed_in never_rejects
          (first_fails (FetchResponse 500 (Json None))) world_AB))) =
       submitted (trace world_AB) @ stored_queue world_AB" by (rule conjunct1)
  from t h3 h4 h5 have t2: "stored_queue world_AB ! 0 \<in>
       set (stored_queue (snd (processOfflineQueue signed_in never_rejects
          (first_fails (FetchResponse 500 (Json None))) world_AB)))" by blast
  from t1 t2 h1 h2 h3 h4 h6 h7 show ?thesis by (simp add: s world_AB_queue)
qed

subsection \<open>C2: every replay succeeds\<close>

text \<open>
  C2. For every non-empty queue, in a pass that runs with an authenticated client and a
  browser whose storage and badge calls resolve, if the replay of every entry succeeds
  the queue is empty afterwards, every entry is counted as processed, and the pass shows
  exactly one notification, the aggregate one, when the queue held more than one entry
  (and none when it held one).
\<close>

theorem all_succeed_queue_empty:
  assumes auth: "isAuthenticated c"
    and ok: "\<forall>n. \<not> rejects n"
    and ne: "stored_queue w \<noteq> []"
    and all: "\<forall>i < length (stored_queue w). replay_ok (api i)"
  shows "stored_queue (snd (processOfflineQueue c rejects api w)) = []
       \<and> fst (processOfflineQueue c rejects api w) = Some (length (stored_queue w), 0)
       \<and> notifications (trace (snd (processOfflineQueue c rejects api w))) =
           notifications (trace w) @
             (if length (stored_queue w) > 1
              then [(''Sync Complete'',
                     toString (length (stored_queue w)) @ '' offline bookmarks synced'')]
              else [])"
proof -
  let ?q = "stored_queue w"
  let ?w1 = "w\<lparr>calls := Suc (calls w), trace := trace w @ [StorageGet]\<rparr>"
  let ?s = "process_items rejects api 0 ?q (0, 0, ?w1)"
  from ok have read: "\<not> rejects (calls w)" by simp
  note unfold = pass_unfold [where c = c and rejects = rejects and w = w and api = api,
      OF auth read ne]
  have q1: "stored_queue ?w1 = ?q" by (simp add: stored_queue_def)
  from all have ids: "ok_ids api 0 ?q = map entry_id ?q" by (simp add: ok_ids_all)
  have p: "fst ?s = length ?q" by (simp add: process_items_processedCount ids)
  have "fst (snd ?s) + length (ok_ids api 0 ?q) = 0 + length ?q"
    by (rule process_items_failedCount)
  then have f: "fst (snd ?s) = 0" by (simp add: ids)
  have "stored_queue (snd (snd ?s)) = filter (\<lambda>e. entry_id e \<notin> set (map entry_id ?q)) ?q"
    by (simp add: process_items_stored_queue [OF ok] ids q1)
  also have "\<dots> = []" by (simp add: filter_empty_conv)
  finally have e: "stored_queue (snd (processOfflineQueue c rejects api w)) = []"
    by (simp add: unfold after_loop_stored_queue)
  have c: "fst (processOfflineQueue c rejects api w) = Some (length ?q, 0)"
    by (simp add: unfold after_loop_counts p f)
  have n: "notifications (trace (snd (processOfflineQueue c rejects api w))) =
           notifications (trace w) @
             (if length ?q > 1
              then [(''Sync Complete'', toString (length ?q) @ '' offline bookmarks synced'')]
              else [])"
    by (simp add: unfold after_loop_notifications process_items_notifications p
        notifications_append notifications_Cons notifications_Nil)
  from e c n show ?thesis by simp
qed

theorem all_succeed_queue_empty_witness:
  "isAuthenticated signed_in
   \<and> stored_queue world_three \<noteq> []
   \<and> length (stored_queue world_three) = 3
   \<and> replay_ok (all_succeed 0) \<and> replay_ok (all_succeed 1) \<and> replay_ok (all_succeed 2)
   \<and> stored_queue (snd (processOfflineQueue signed_in never_rejects all_succeed world_three)) = []
   \<and> fst (processOfflineQueue signed_in never_rejects all_succeed world_three) = Some (3, 0)
   \<and> notifications (trace (snd (processOfflineQueue signed_in never_rejects all_succeed
         world_three))) = [(''Sync Complete'', ''3 offline bookmarks synced'')]"
proof -
  have h1: "isAuthenticated signed_in" by (rule signed_in_authenticated)
  have h2: "\<forall>n. \<not> never_rejects n" by (simp add: never_rejects_def)
  have h3: "stored_queue world_three \<noteq> []" by (simp add: world_three_queue)
  have h4: "\<forall>i < length (stored_queue world_three). replay_ok (all_succeed i)"
    by (simp add: all_succeed_def eval_created)
  have l: "length (stored_queue world_three) = 3" by (simp add: world_three_queue)
  have n: "notifications (trace world_three) = []"
    by (simp add: world_three_def queue_defs notifications_def)
  have s: "toString 3 = ''3''" by (simp add: toString.simps)
  note t = all_succeed_queue_empty [where c = signed_in and rejects = never_rejects
      and w = world_three and api = all_succeed, OF h1 h2 h3 h4]
  have r: "replay_ok (all_succeed i)" for i
    by (simp add: all_succeed_def eval_created)
  from t h1 h3 r show ?thesis by (simp add: l n s)
qed

subsection \<open>C3: an unauthenticated pass\<close>

text \<open>
  C3. Whatever the queue holds, a reconciliation pass run while \<^verbatim>\<open>isAuthenticated()\<close>
  is false returns at once and normally: the world is unchanged, so the queue is neither
  read nor written and no submission is made.
\<close>

theorem unauthenticated_pass_noop:
  "\<not> isAuthenticated c \<Longrightarrow> processOfflineQueue c rejects api w = (None, w)"
  by (simp add: processOfflineQueue_def)

theorem unauthenticated_pass_noop_witness:
  "\<not> isAuthenticated signed_out
   \<and> stored_queue world_AB \<noteq> []
   \<and> processOfflineQueue signed_out never_rejects all_succeed world_AB = (None, world_AB)"
proof -
  have h: "\<not> isAuthenticated signed_out" by (simp add: api_defs)
  have q: "stored_queue world_AB \<noteq> []" by (simp add: world_AB_eq stored_queue_def or_empty_def)
  from h q unauthenticated_pass_noop [where c = signed_out and rejects = never_rejects
      and api = all_succeed and w = world_AB, OF h]
  show ?thesis by simp
qed

subsection \<open>C4: the scenario A fails, B succeeds\<close>



subsection \<open>C5: the kind of a failure\<close>




subsection \<open>C6: insertion order\<close>

text \<open>
  C6. When the storage calls resolve, the queue read back after a sequence of enqueue
  operations is the queue before it followed by the new entries in the order of the
  calls, each with its payload. And whatever the storage calls do, each queue operation
  leaves the stored queue as it is, or appends the one new entry
  (\<^verbatim>\<open>addToOfflineQueue\<close>), or removes the entries with the given id
  (\<^verbatim>\<open>removeFromOfflineQueue\<close>), or removes all of them (\<^verbatim>\<open>clearOfflineQueue\<close>): no
  entry is changed and no two entries change places.
\<close>

theorem queue_keeps_insertion_order:
  "((\<forall>n. \<not> rejects n) \<longrightarrow>
      fst (getOfflineQueue rejects (enqueue_all rejects inputs w)) =
        \<lparr>success = True, error = None, data = stored_queue w @ map new_entry inputs\<rparr>)
   \<and> map payload (map new_entry inputs) = map fst inputs
   \<and> stored_queue (snd (addToOfflineQueue rejects p now rnd now' w)) \<in>
        {stored_queue w, stored_queue w @ [new_entry (p, now, rnd, now')]}
   \<and> stored_queue (snd (getOfflineQueue rejects w)) = stored_queue w
   \<and> stored_queue (snd (removeFromOfflineQueue rejects i w)) \<in>
        {stored_queue w, filter (\<lambda>item. entry_id item \<noteq> i) (stored_queue w)}
   \<and> stored_queue (snd (clearOfflineQueue rejects w)) \<in> {stored_queue w, []}"
proof -
  have a: "(\<forall>n. \<not> rejects n) \<longrightarrow>
      fst (getOfflineQueue rejects (enqueue_all rejects inputs w)) =
        \<lparr>success = True, error = None, data = stored_queue w @ map new_entry inputs\<rparr>"
    by (simp add: getOfflineQueue_eq enqueue_all_stored_queue)
  have b: "map payload (map new_entry inputs) = map fst inputs"
    by (simp add: new_entry_def split_def comp_def)
  have c: "stored_queue (snd (addToOfflineQueue rejects p now rnd now' w)) \<in>
        {stored_queue w, stored_queue w @ [new_entry (p, now, rnd, now')]}"
    by (simp add: add_stored_queue)
  have d: "stored_queue (snd (getOfflineQueue rejects w)) = stored_queue w"
    by (simp add: getOfflineQueue_eq stored_queue_def)
  have e: "stored_queue (snd (removeFromOfflineQueue rejects i w)) \<in>
        {stored_queue w, filter (\<lambda>item. entry_id item \<noteq> i) (stored_queue w)}"
    by (simp add: remove_stored_queue)
  have f: "stored_queue (snd (clearOfflineQueue rejects w)) \<in> {stored_queue w, []}"
    by (simp add: clear_stored_queue)
  from a b c d e f show ?thesis by blast
qed

theorem queue_keeps_insertion_order_witness:
  "\<not> never_rejects 0
   \<and> fst (getOfflineQueue never_rejects (enqueue_all never_rejects
        [(payload_A, 1700000000000, 1 / 2, 1700000000000),
         (payload_B, 1700000000001, 1 / 4, 1700000000001)] empty_world)) =
       \<lparr>success = True, error = None,
          data = [\<lparr>payload = payload_A, entry_id = 3400000000001 / 2, queuedAt = 1700000000000\<rparr>,
                  \<lparr>payload = payload_B, entry_id = 6800000000005 / 4, queuedAt = 1700000000001\<rparr>]\<rparr>"
proof -
  have h: "\<forall>n. \<not> never_rejects n" by (simp add: never_rejects_def)
  note t = queue_keeps_insertion_order [where rejects = never_rejects
      and inputs = "[(payload_A, 1700000000000, 1 / 2, 1700000000000),
         (payload_B, 1700000000001, 1 / 4, 1700000000001)]"
      and w = "empty_world :: bookmarkData world", THEN conjunct1, THEN mp, OF h]
  from t h show ?thesis
    by (simp add: new_entry_def empty_world_def stored_queue_def or_empty_def never_rejects_def
        id_A id_B)
qed

subsection \<open>C7: removing an id that is not there\<close>

text \<open>
  C7. For every queue and every id that no entry of the queue carries,
  \<^verbatim>\<open>removeFromOfflineQueue\<close> leaves the queue as it is and returns a result (it never
  throws); the result is \<^verbatim>\<open>{ success: true }\<close> when the two storage calls resolve.
\<close>

theorem remove_absent_id:
  assumes "i \<notin> entry_id ` set (stored_queue w)"
  shows "stored_queue (snd (removeFromOfflineQueue rejects i w)) = stored_queue w
       \<and> (\<not> rejects (calls w) \<and> \<not> rejects (Suc (calls w)) \<longrightarrow>
            fst (removeFromOfflineQueue rejects i w) = \<lparr>success = True, error = None\<rparr>)"
proof -
  from assms have "filter (\<lambda>item. entry_id item \<noteq> i) (stored_queue w) = stored_queue w"
    by (auto simp: filter_id_conv)
  then show ?thesis by (simp add: remove_stored_queue remove_success)
qed

theorem remove_absent_id_witness:
  "5 \<notin> entry_id ` set (stored_queue world_AB)
   \<and> \<not> never_rejects (calls world_AB) \<and> \<not> never_rejects (Suc (calls world_AB))
   \<and> stored_queue (snd (removeFromOfflineQueue never_rejects 5 world_AB)) =
       [new_entry (payload_A, 1700000000000, 1 / 2, 1700000000000),
        new_entry (payload_B, 1700000000001, 1 / 4, 1700000000001)]
   \<and> fst (removeFromOfflineQueue never_rejects 5 world_AB) = \<lparr>success = True, error = None\<rparr>"
proof -
  have q: "stored_queue world_AB =
       [new_entry (payload_A, 1700000000000, 1 / 2, 1700000000000),
        new_entry (payload_B, 1700000000001, 1 / 4, 1700000000001)]"
    by (simp add: world_AB_eq stored_queue_def or_empty_def)
  have h: "5 \<notin> entry_id ` set (stored_queue world_AB)"
    by (simp add: q new_entry_def id_A id_B)
  have r: "\<not> never_rejects (calls world_AB) \<and> \<not> never_rejects (Suc (calls world_AB))"
    by (simp add: never_rejects_def)
  from remove_absent_id [where i = 5 and w = world_AB and rejects = never_rejects, OF h] h r q
  show ?thesis by simp
qed

subsection \<open>C8: an empty queue, or a snapshot that cannot be read\<close>

text \<open>
  C8. When the queue is empty, or the read of the snapshot fails, a pass does nothing
  but that read (and not even that when the client is signed out): the trace gains at
  most the event \<open>StorageGet\<close>, hence no submission, no removal, no badge call and no
  notification, and the stored value is untouched.
\<close>

theorem empty_queue_pass_noop:
  assumes "stored_queue w = [] \<or> rejects (calls w)"
  shows "processOfflineQueue c rejects api w =
           (None, if isAuthenticated c
                  then w\<lparr>calls := Suc (calls w), trace := trace w @ [StorageGet]\<rparr>
                  else w)"
  using assms by (auto simp add: processOfflineQueue_def getOfflineQueue_eq)

theorem empty_queue_pass_noop_witness:
  "(stored_queue (empty_world :: bookmarkData world) = [] \<or> never_rejects (calls (empty_world :: bookmarkData world)))
   \<and> processOfflineQueue signed_in never_rejects all_succeed (empty_world :: bookmarkData world) =
       (None, \<lparr>stored = None, calls = 1, trace = [StorageGet]\<rparr>)
   \<and> (stored_queue world_AB = [] \<or> always_rejects (calls world_AB))
   \<and> stored_queue world_AB \<noteq> []
   \<and> processOfflineQueue signed_in always_rejects all_succeed world_AB =
       (None, world_AB\<lparr>calls := 5, trace := trace world_AB @ [StorageGet]\<rparr>)"
proof -
  have h1: "stored_queue (empty_world :: bookmarkData world) = []
            \<or> never_rejects (calls (empty_world :: bookmarkData world))"
    by (simp add: empty_world_def stored_queue_def or_empty_def)
  have h2: "stored_queue world_AB = [] \<or> always_rejects (calls world_AB)"
    by (simp add: always_rejects_def)
  have q: "stored_queue world_AB \<noteq> []" by (simp add: world_AB_eq stored_queue_def or_empty_def)
  have a: "isAuthenticated signed_in" by (simp add: api_defs)
  have c: "calls world_AB = 4" by (simp add: world_AB_eq)
  note n1 = empty_queue_pass_noop [where rejects = never_rejects and c = signed_in
      and api = all_succeed and w = "empty_world :: bookmarkData world", OF h1]
  note n2 = empty_queue_pass_noop [where rejects = always_rejects and c = signed_in
      and api = all_succeed and w = world_AB, OF h2]
  from n1 n2 h1 h2 q a c
  show ?thesis by (simp add: empty_world_def)
qed

subsection \<open>C9: the ids\<close>




subsection \<open>C10: removing an id removes every match\<close>

text \<open>
  C10. When the two storage calls resolve, \<^verbatim>\<open>removeFromOfflineQueue\<close> stores the queue
  filtered by \<^verbatim>\<open>item.id !== itemId\<close>: every entry with that id is gone, the others
  keep their order, and the result is \<^verbatim>\<open>{ success: true }\<close> whether or not an entry
  matched.
\<close>

theorem remove_deletes_every_match:
  assumes "\<not> rejects (calls w)" and "\<not> rejects (Suc (calls w))"
  shows "fst (removeFromOfflineQueue rejects i w) = \<lparr>success = True, error = None\<rparr>
       \<and> stored_queue (snd (removeFromOfflineQueue rejects i w)) =
           filter (\<lambda>item. entry_id item \<noteq> i) (stored_queue w)
       \<and> i \<notin> entry_id ` set (stored_queue (snd (removeFromOfflineQueue rejects i w)))"
  using assms by (auto simp add: remove_stored_queue remove_success)

theorem remove_deletes_every_match_witness:
  "\<not> never_rejects (calls world_ABA) \<and> \<not> never_rejects (Suc (calls world_ABA))
   \<and> stored_queue world_ABA =
       [new_entry (payload_A, 1700000000000, 1 / 2, 1700000000000),
        new_entry (payload_B, 1700000000001, 1 / 4, 1700000000001),
        new_entry (payload_A, 1700000000000, 1 / 2, 1700000000002)]
   \<and> fst (removeFromOfflineQueue never_rejects (3400000000001 / 2) world_ABA) =
       \<lparr>success = True, error = None\<rparr>
   \<and> stored_queue (snd (removeFromOfflineQueue never_rejects (3400000000001 / 2) world_ABA)) =
       [new_entry (payload_B, 1700000000001, 1 / 4, 1700000000001)]"
proof -
  have h1: "\<not> never_rejects (calls world_ABA)" by (simp add: never_rejects_def)
  have h2: "\<not> never_rejects (Suc (calls world_ABA))" by (simp add: never_rejects_def)
  note r = remove_deletes_every_match [where rejects = never_rejects and w = world_ABA
      and i = "3400000000001 / 2", OF h1 h2]
  from r h1 h2 show ?thesis by (simp add: world_ABA_queue new_entry_def id_A id_B)
qed

end
